theory Spec2Isabelle
  imports Complex_Main "HOL-Library.AList" "HOL-Library.Sublist"
begin

section \<open>Python strings\<close>

text \<open>
  A Python \<open>str\<close> is a sequence of Unicode code points, so it is modelled as a list of
  natural numbers. \<open>ascii\<close> embeds an ASCII literal; the four non-ASCII glyphs of the
  declination notation are named by their code points.
\<close>

type_synonym pystr = "nat list"

definition ascii :: "string \<Rightarrow> pystr" where
  "ascii cs = map of_char cs"


text \<open>
  \<open>str.lower()\<close> maps every code point to its lowercase form and concatenates the
  results. On ASCII that is the shift of \<open>A..Z\<close> to \<open>a..z\<close>. Outside ASCII the result
  comes from the Unicode case tables, which are not part of this repository: they are the
  parameter \<open>U\<close>, which gives the lowercase form of a non-ASCII code point from the code
  points before it, the code point itself and the code points after it (the form of a
  capital sigma depends on its neighbours, and some forms are several code points long).
\<close>

type_synonym case_table = "pystr \<Rightarrow> nat \<Rightarrow> pystr \<Rightarrow> pystr"

definition ascii_lower :: "nat \<Rightarrow> nat" where
  "ascii_lower c = (if 65 \<le> c \<and> c \<le> 90 then c + 32 else c)"

fun lower_from :: "case_table \<Rightarrow> pystr \<Rightarrow> pystr \<Rightarrow> pystr" where
  "lower_from U pre [] = []"
| "lower_from U pre (c # cs) =
     (if c < 128 then [ascii_lower c] else U pre c cs) @ lower_from U (pre @ [c]) cs"

definition py_lower :: "case_table \<Rightarrow> pystr \<Rightarrow> pystr" where
  "py_lower U s = lower_from U [] s"

text \<open>\<open>kw in s\<close> on strings: \<open>kw\<close> occurs in \<open>s\<close> as a contiguous substring.\<close>

fun py_in :: "pystr \<Rightarrow> pystr \<Rightarrow> bool" where
  "py_in kw [] = (kw = [])"
| "py_in kw (c # cs) = (prefix kw (c # cs) \<or> py_in kw cs)"

section \<open>config.py: object categories\<close>

record category_config =
  base_symbol :: pystr
  base_color :: pystr
  keywords_of :: "pystr list"  \<comment> \<open>the key \<open>keywords\<close>, a reserved word here\<close>

text \<open>
  \<open>OBJECT_CATEGORIES\<close> is a dict literal; iteration over \<open>.items()\<close> follows insertion
  order, so it is an association list in the order of the source.
\<close>

definition OBJECT_CATEGORIES :: "(pystr \<times> category_config) list" where
  "OBJECT_CATEGORIES =
    [(ascii ''Galaxy'',
        \<lparr>base_symbol = ascii ''circle'', base_color = ascii ''#FF6B6B'',
         keywords_of = [ascii ''galaxy'', ascii ''Galaxy'']\<rparr>),
     (ascii ''Nebula'',
        \<lparr>base_symbol = ascii ''square'', base_color = ascii ''#DDA0DD'',
         keywords_of = [ascii ''nebula'', ascii ''Nebula'']\<rparr>),
     (ascii ''Cluster'',
        \<lparr>base_symbol = ascii ''star'', base_color = ascii ''#96CEB4'',
         keywords_of = [ascii ''cluster'', ascii ''Cluster'', ascii ''cloud'']\<rparr>),
     (ascii ''Other'',
        \<lparr>base_symbol = ascii ''diamond'', base_color = ascii ''#FFEAA7'',
         keywords_of = []\<rparr>)]"

text \<open>
  The inner loop of \<open>classify_object_type\<close>: does some keyword of the list, lowercased,
  occur in the lowercased label?
\<close>

fun keyword_matches :: "case_table \<Rightarrow> pystr list \<Rightarrow> pystr \<Rightarrow> bool" where
  "keyword_matches U [] obj_type_str = False"
| "keyword_matches U (keyword # rest) obj_type_str =
     (if py_in (py_lower U keyword) obj_type_str then True
      else keyword_matches U rest obj_type_str)"

text \<open>
  The outer loop over the categories, returning at the first match; \<open>'Other'\<close> is
  returned after the loop.
\<close>

fun classify_loop :: "case_table \<Rightarrow> (pystr \<times> category_config) list \<Rightarrow> pystr \<Rightarrow> pystr" where
  "classify_loop U [] obj_type_str = ascii ''Other''"
| "classify_loop U ((category, config) # rest) obj_type_str =
     (if keyword_matches U (keywords_of config) obj_type_str then category
      else classify_loop U rest obj_type_str)"

definition classify_object_type :: "case_table \<Rightarrow> pystr \<Rightarrow> pystr" where
  "classify_object_type U obj_type =
     (let obj_type_str = py_lower U obj_type
      in classify_loop U OBJECT_CATEGORIES obj_type_str)"

section \<open>data\_utils.py: the local classifier of get\_filter\_options\<close>

text \<open>\<open>any(keyword in obj_type_str for keyword in kws)\<close>.\<close>

fun any_keyword_in :: "pystr list \<Rightarrow> pystr \<Rightarrow> bool" where
  "any_keyword_in [] obj_type_str = False"
| "any_keyword_in (keyword # rest) obj_type_str =
     (py_in keyword obj_type_str \<or> any_keyword_in rest obj_type_str)"

definition classify_object_type_local :: "case_table \<Rightarrow> pystr \<Rightarrow> pystr" where
  "classify_object_type_local U obj_type =
     (let obj_type_str = py_lower U obj_type
      in if any_keyword_in [ascii ''galaxy''] obj_type_str then ascii ''Galaxy''
         else if any_keyword_in [ascii ''nebula''] obj_type_str then ascii ''Nebula''
         else if any_keyword_in [ascii ''cluster'', ascii ''cloud''] obj_type_str
           then ascii ''Cluster''
         else ascii ''Other'')"

section \<open>config.py: object styles\<close>

text \<open>
  The exceptions of the Python code are values: a computation that may raise returns
  \<open>pyerr + 'a\<close>, with \<open>Inl\<close> for the exception raised. \<open>try_bind\<close> sequences two such
  computations, the second running only if the first did not raise.
\<close>

datatype pyerr =
    KeyError | IndexError | ValueError | TypeError | AttributeError
  | FileNotFoundError | ImportError | OtherException




record object_style =
  symbol :: pystr
  color :: pystr
  size :: int
  category :: pystr




section \<open>Python floats and string operations used by the coordinate parser\<close>













text \<open>
  \<open>s.replace(old, new)\<close> where \<open>old\<close> is a single code point, as in every call of the
  parser: each occurrence is replaced.
\<close>

definition replace_char :: "nat \<Rightarrow> pystr \<Rightarrow> pystr \<Rightarrow> pystr" where
  "replace_char old new s = concat (map (\<lambda>c. if c = old then new else [c]) s)"






section \<open>data\_utils.py: the coordinate parser\<close>










section \<open>data\_utils.py: tables and process\_coordinates\<close>










section \<open>config.py: the embedded sample\<close>


section \<open>data\_utils.py: the loader\<close>

















section \<open>Notions of the specification\<close>



section \<open>Auxiliary notions and example inputs\<close>









section \<open>Properties of the classifier\<close>


lemma lower_keywords:
  "py_lower U (ascii ''galaxy'') = ascii ''galaxy''"
  "py_lower U (ascii ''Galaxy'') = ascii ''galaxy''"
  "py_lower U (ascii ''nebula'') = ascii ''nebula''"
  "py_lower U (ascii ''Nebula'') = ascii ''nebula''"
  "py_lower U (ascii ''cluster'') = ascii ''cluster''"
  "py_lower U (ascii ''Cluster'') = ascii ''cluster''"
  "py_lower U (ascii ''cloud'') = ascii ''cloud''"
  "py_lower U (ascii ''Other'') = ascii ''other''"
  by (simp_all add: py_lower_def ascii_def ascii_lower_def)

lemma classify_object_type_cases:
  "classify_object_type U label =
     (if py_in (ascii ''galaxy'') (py_lower U label) then ascii ''Galaxy''
      else if py_in (ascii ''nebula'') (py_lower U label) then ascii ''Nebula''
      else if py_in (ascii ''cluster'') (py_lower U label)
            \<or> py_in (ascii ''cloud'') (py_lower U label) then ascii ''Cluster''
      else ascii ''Other'')"
  by (simp add: classify_object_type_def OBJECT_CATEGORIES_def lower_keywords Let_def)








text \<open>
  Claim C6. On every string \<open>classify_object_type\<close> returns one of the four category
  names, and classifying a result again returns it unchanged.
\<close>

theorem classify_object_type_total_idempotent:
  "classify_object_type U s \<in>
     {ascii ''Galaxy'', ascii ''Nebula'', ascii ''Cluster'', ascii ''Other''}
   \<and> classify_object_type U (classify_object_type U s) = classify_object_type U s"
proof -
  have fixed:
    "classify_object_type U (ascii ''Galaxy'') = ascii ''Galaxy''"
    "classify_object_type U (ascii ''Nebula'') = ascii ''Nebula''"
    "classify_object_type U (ascii ''Cluster'') = ascii ''Cluster''"
    "classify_object_type U (ascii ''Other'') = ascii ''Other''"
    unfolding classify_object_type_cases lower_keywords by (simp_all add: ascii_def)
  have mem: "classify_object_type U s \<in>
     {ascii ''Galaxy'', ascii ''Nebula'', ascii ''Cluster'', ascii ''Other''}"
    by (simp add: classify_object_type_cases)
  then show ?thesis using fixed by auto
qed

text \<open>
  Claim C10. The local classifier inside \<open>get_filter_options\<close> and
  \<open>config.classify_object_type\<close> return the same category for every label.
\<close>

theorem classify_object_type_local_eq:
  "classify_object_type_local U label = classify_object_type U label"
  by (simp add: classify_object_type_cases classify_object_type_local_def Let_def)

section \<open>Properties of the styles\<close>







section \<open>Properties of the string operations\<close>

lemma replace_char_remove: "replace_char c [] s = filter (\<lambda>x. x \<noteq> c) s"
  by (induction s) (auto simp: replace_char_def)













lemma filter_keep: "\<forall>x \<in> set s. x \<noteq> c \<Longrightarrow> filter (\<lambda>x. x \<noteq> c) s = s"
  by (induction s) auto

section \<open>Properties of the coordinate parser\<close>

lemma remove_piece:
  "\<forall>x \<in> set s. x \<noteq> c \<Longrightarrow> replace_char c [] (s @ r) = s @ replace_char c [] r"
  by (simp add: replace_char_remove filter_keep)

lemma remove_unit: "replace_char c [] (c # r) = replace_char c [] r"
  by (simp add: replace_char_remove)

lemma remove_last: "replace_char c [] [] = []"
  by (simp add: replace_char_remove)




















section \<open>Properties of process\_coordinates\<close>





section \<open>Properties of the loader\<close>






end
